theory Spec2Isabelle
  imports Main "HOL-Library.Sublist"
begin

section \<open>JavaScript values shared by the client and the server\<close>

text \<open>
  Strings are lists of 8-bit characters, so the texts and names of this development are
  ASCII.  Indices of machines and offsets into a text are natural numbers.  A promise
  is the value it resolves to: a pass of the server runs from its event to its end.
\<close>

text \<open>
  A thrown JavaScript value.  \<open>Error\<close> and \<open>TypeError\<close> objects carry a \<open>message\<close>;
  \<open>Thrown\<close> stands for any thrown value without a string \<open>message\<close> property.  The
  texts of the \<open>TypeError\<close>s raised by the runtime itself (a property read on
  \<open>undefined\<close>) are those of V8.
\<close>

datatype js_exn = Error string | TypeError string | Thrown

text \<open>\<open>isErrorWithMessage(e) ? e.message : 'Unknown error'\<close>, as both catch blocks of the
  server compute it.\<close>

fun message_or_unknown :: "js_exn \<Rightarrow> string" where
  "message_or_unknown (Error m) = m"
| "message_or_unknown (TypeError m) = m"
| "message_or_unknown Thrown = ''Unknown error''"

text \<open>Truthiness of an optional string: \<open>undefined\<close> and the empty string are falsy.\<close>

fun truthy :: "string option \<Rightarrow> bool" where
  "truthy None = False"
| "truthy (Some s) = (s \<noteq> [])"

abbreviation sq :: string where
  "sq \<equiv> [CHR 0x27]"

abbreviation nl :: string where
  "nl \<equiv> [CHR 0x0A]"

text \<open>\<open>Array.prototype.join\<close> on an array of strings.\<close>

fun js_join :: "string \<Rightarrow> string list \<Rightarrow> string" where
  "js_join sep [] = []"
| "js_join sep [x] = x"
| "js_join sep (x # y # ys) = x @ sep @ js_join sep (y # ys)"

text \<open>\<open>a || b\<close> on strings: the empty string is falsy.\<close>

definition js_or :: "string \<Rightarrow> string \<Rightarrow> string" where
  "js_or a b = (if a = [] then b else a)"

text \<open>Decimal rendering of a non-negative integer inside a template literal.\<close>

fun string_of_nat :: "nat \<Rightarrow> string" where
  "string_of_nat n =
     (if n < 10 then [''0123456789'' ! n]
      else string_of_nat (n div 10) @ [''0123456789'' ! (n mod 10)])"

text \<open>
  A JavaScript \<open>Set\<close> keeps its elements in insertion order and ignores the insertion
  of an element it already holds.  It is modelled by the list of its elements in
  iteration order; \<open>set_add\<close> is \<open>Set.prototype.add\<close> and \<open>Array.from\<close> is the identity.
\<close>

definition set_add :: "'a list \<Rightarrow> 'a \<Rightarrow> 'a list" where
  "set_add s x = (if x \<in> set s then s else s @ [x])"


section \<open>The client: rendering of the generated types (extension.ts)\<close>

record Line =
  name :: string
  events :: "string list"

text \<open>\<open>unique\<close>: \<open>Array.from(new Set(array))\<close>.\<close>

definition unique :: "'a list \<Rightarrow> 'a list" where
  "unique array = foldl set_add [] array"

definition displayEventsCausing :: "Line list \<Rightarrow> string" where
  "displayEventsCausing lines =
     js_join nl
       (map (\<lambda>line.
          sq @ name line @ sq @ '': '' @
          js_or (js_join '' | ''
                   (map (\<lambda>event. sq @ event @ sq)
                      (unique (map (\<lambda>event. event) (events line)))))
                ''string'' @
          '';'')
        lines)"

text \<open>
  What the specification asks of an event-name union: the names in the order in which
  they are first seen, every later repetition dropped.  \<open>first_index\<close> is the
  position of the first occurrence of a name.
\<close>

fun first_seen :: "'a list \<Rightarrow> 'a list" where
  "first_seen [] = []"
| "first_seen (x # xs) = x # filter (\<lambda>y. y \<noteq> x) (first_seen xs)"

fun first_index :: "'a list \<Rightarrow> 'a \<Rightarrow> nat" where
  "first_index [] a = 0"
| "first_index (x # xs) a = (if x = a then 0 else Suc (first_index xs a))"

subsection \<open>The regular expression \<open>inlineInvocationName\<close>\<close>

text \<open>
  \<open>/done\.invoke\..{0,}:invocation\[.{0,}\]/\<close> is not anchored: \<open>test\<close> searches for
  a match starting anywhere in the string.  \<open>.\<close> matches every character but a line
  terminator.  Each combinator below takes the matcher of the rest of the pattern.
\<close>

definition line_terminator :: "char \<Rightarrow> bool" where
  "line_terminator c = (c = CHR 0x0A \<or> c = CHR 0x0D)"

definition lit_then :: "string \<Rightarrow> (string \<Rightarrow> bool) \<Rightarrow> string \<Rightarrow> bool" where
  "lit_then l k s = (prefix l s \<and> k (drop (length l) s))"

fun dots_then :: "(string \<Rightarrow> bool) \<Rightarrow> string \<Rightarrow> bool" where
  "dots_then k [] = k []"
| "dots_then k (c # cs) = (k (c # cs) \<or> (\<not> line_terminator c \<and> dots_then k cs))"

fun search_from :: "(string \<Rightarrow> bool) \<Rightarrow> string \<Rightarrow> bool" where
  "search_from k [] = k []"
| "search_from k (c # cs) = (k (c # cs) \<or> search_from k cs)"

definition inlineInvocationName :: "string \<Rightarrow> bool" where
  "inlineInvocationName event =
     search_from
       (lit_then ''done.invoke.''
         (dots_then (lit_then '':invocation[''
           (dots_then (lit_then '']'' (\<lambda>rest. True))))))
       event"

subsection \<open>\<open>collectInternalEvents\<close>\<close>

text \<open>The entry that one event name adds to the set, if it adds one.\<close>

definition internalEventEntry :: "string \<Rightarrow> string option" where
  \<open>internalEventEntry event =
     (if inlineInvocationName event then
        Some (sq @ event @ sq @ '': {'' @ nl @
              ''              // Tip appears here?'' @ nl @
              ''              type: '' @ sq @ event @ sq @
              ''; data: unknown; __tip: "Give this service a name and move it into the machine options to strongly type it" };'')
      else if prefix ''done.invoke'' event then
        Some (sq @ event @ sq @ '': { type: '' @ sq @ event @ sq @
              ''; data: unknown; __tip: "Provide an event of type { type: '' @ sq @ event @ sq @
              ''; data: any } to strongly type this" };'')
      else if prefix ''xstate.'' event \<or> event = [] then
        Some (sq @ event @ sq @ '': { type: '' @ sq @ event @ sq @ '' };'')
      else if prefix ''error.platform'' event then
        Some (sq @ event @ sq @ '': { type: '' @ sq @ event @ sq @ ''; data: unknown; };'')
      else None)\<close>

definition add_event :: "string list \<Rightarrow> string \<Rightarrow> string list" where
  "add_event internalEvents event =
     (case internalEventEntry event of
        None \<Rightarrow> internalEvents
      | Some entry \<Rightarrow> set_add internalEvents entry)"

definition collectInternalEvents :: "Line list list \<Rightarrow> string list" where
  "collectInternalEvents lineArrays =
     foldl (\<lambda>internalEvents lines.
              foldl (\<lambda>internalEvents line. foldl add_event internalEvents (events line))
                internalEvents lines)
       [] lineArrays"

text \<open>\<open>String.prototype.includes\<close>.\<close>

fun includes_str :: "string \<Rightarrow> string \<Rightarrow> bool" where
  "includes_str [] needle = (needle = [])"
| "includes_str (c # cs) needle = (prefix needle (c # cs) \<or> includes_str cs needle)"


section \<open>The server (server.ts)\<close>

subsection \<open>Data\<close>

record GlobalSettings =
  showVisualEditorWarnings :: bool

definition defaultSettings :: GlobalSettings where
  "defaultSettings = \<lparr>showVisualEditorWarnings = True\<rparr>"

record TextDocument =
  uri :: string
  getText :: string

text \<open>
  Values that only travel through the server (machine configs, inline implementations,
  the recorded and the computed type surfaces) have the type \<open>'j\<close>; \<open>deepEqual\<close> on
  them is equality.  \<open>'m\<close> is the extractor's \<open>MachineExtractResult\<close>.
\<close>

record 'j TypegenDataData =
  tsTypesValue :: 'j
  otherData :: 'j

record 'j TypegenData =
  typesNode_value :: 'j
  data :: "'j TypegenDataData"

text \<open>One slot of a cached document.  An absent property is \<open>None\<close>.\<close>

record ('m, 'j) ExtractionResult =
  machineResult :: "'m option"
  types :: "'j TypegenData option"
  configError :: "string option"

record ('m, 'j) CachedDocument =
  documentText :: string
  extractionResults :: "('m, 'j) ExtractionResult list"

record DisplayedMachine =
  displayed_uri :: string
  machineIndex :: nat

record ToConfigOptions =
  anonymizeInlineImplementations :: bool
  hashInlineImplementations :: bool

record 'j MachinePayload =
  config :: "'j option"
  layoutString :: "string option"
  implementations :: 'j
  namedGuards :: "string list"

text \<open>What the server sends to the client through \<open>connection\<close>.\<close>

datatype ('j, 'g) outgoing =
    ExtractionError "string option"
  | DisplayedMachineUpdated "'j MachinePayload"
  | Diagnostics string "'g list"
  | TypesUpdated string "'j TypegenData list"

text \<open>The module-level variables of the server.\<close>

record ('m, 'j) server =
  hasConfigurationCapability :: bool
  globalSettings :: GlobalSettings
  documentSettings :: "string \<rightharpoonup> GlobalSettings"
  documentsCache :: "string \<rightharpoonup> ('m, 'j) CachedDocument"
  displayedMachine :: "DisplayedMachine option"

text \<open>
  The functions that the server imports from the extractor, the shared tools and the
  language-server library are parameters.  A function called inside a \<open>try\<close> for its
  exception returns a sum.  \<open>introspectMachine\<close> stands for
  \<open>introspectMachine(createIntrospectableMachine(machineResult))\<close>, whose value the
  server drops: it is the exception thrown, if any.  \<open>filterOutIgnoredMachines\<close>
  stands for \<open>filterOutIgnoredMachines(extracted).machines\<close>, \<open>getAllCondsNamed\<close> for
  the names of \<open>getAllConds(['named'])\<close>, \<open>getSetOfNames\<close> for the array made from the
  set that \<open>getSetOfNames\<close> returns, \<open>getLayoutComment\<close> for
  \<open>getLayoutComment()?.value\<close>, \<open>getConfiguration\<close> for the settings that
  \<open>connection.workspace.getConfiguration\<close> resolves to.
\<close>

record ('m, 'j) machine_api =
  toConfig :: "'m \<Rightarrow> ToConfigOptions \<Rightarrow> 'j option"
  getLayoutComment :: "'m \<Rightarrow> string option"
  getInlineImplementations :: "'m \<Rightarrow> string \<Rightarrow> 'j"
  getAllCondsNamed :: "'m \<Rightarrow> string list"
  getSetOfNames :: "string list \<Rightarrow> string list"

record ('m, 'j, 'g, 'x) reconcile_env = "('m, 'j) machine_api" +
  extractMachinesFromFile :: "string \<Rightarrow> js_exn + 'x option"
  filterOutIgnoredMachines :: "'x \<Rightarrow> 'm list"
  getConfiguration :: "string \<Rightarrow> GlobalSettings"
  basename :: "string \<Rightarrow> string"
  isTypedMachineResult :: "'m \<Rightarrow> bool"
  getTypegenData :: "string \<Rightarrow> nat \<Rightarrow> 'm \<Rightarrow> js_exn + 'j TypegenData"
  introspectMachine :: "'m \<Rightarrow> js_exn option"
  getDiagnostics :: "'m list \<Rightarrow> TextDocument \<Rightarrow> GlobalSettings \<Rightarrow> 'g list"

definition noOptions :: ToConfigOptions where
  "noOptions = \<lparr>anonymizeInlineImplementations = False, hashInlineImplementations = False\<rparr>"

definition anonymize :: ToConfigOptions where
  "anonymize = \<lparr>anonymizeInlineImplementations = True, hashInlineImplementations = False\<rparr>"

definition hashInline :: ToConfigOptions where
  "hashInline = \<lparr>anonymizeInlineImplementations = False, hashInlineImplementations = True\<rparr>"

text \<open>The message of the \<open>TypeError\<close> for reading a property of \<open>undefined\<close>.\<close>

definition cannot_read :: "string \<Rightarrow> js_exn" where
  "cannot_read property =
     TypeError (''Cannot read properties of undefined (reading '' @ sq @ property @ sq @ '')'')"

text \<open>The message of the \<open>TypeError\<close> for destructuring \<open>undefined\<close>.\<close>

definition cannot_destructure :: "string \<Rightarrow> string \<Rightarrow> js_exn" where
  "cannot_destructure property source =
     TypeError (''Cannot destructure property '' @ sq @ property @ sq @ '' of '' @ sq @ source @ sq @
                '' as it is undefined.'')"

subsection \<open>\<open>getDocumentSettings\<close>\<close>

definition getDocumentSettings ::
  "('m, 'j, 'g, 'x) reconcile_env \<Rightarrow> ('m, 'j) server \<Rightarrow> string \<Rightarrow> GlobalSettings \<times> ('m, 'j) server" where
  "getDocumentSettings env st resource =
     (if \<not> hasConfigurationCapability st then (globalSettings st, st)
      else case documentSettings st resource of
        Some cachedResult \<Rightarrow> (cachedResult, st)
      | None \<Rightarrow>
          (let configurationPromise = getConfiguration env resource
           in (configurationPromise,
               st\<lparr>documentSettings := (documentSettings st)(resource \<mapsto> configurationPromise)\<rparr>)))"

subsection \<open>\<open>handleDocumentChange\<close>\<close>

definition areTypesWritable :: "'j TypegenData \<Rightarrow> bool" where
  "areTypesWritable typegenData = (typesNode_value typegenData = tsTypesValue (data typegenData))"

text \<open>The callback of \<open>machineResults.map\<close>: one machine, with its own \<open>try\<close>.\<close>

definition extractOne ::
  "('m, 'j, 'g, 'x) reconcile_env \<Rightarrow> string \<Rightarrow> nat \<Rightarrow> 'm \<Rightarrow> ('m, 'j) ExtractionResult" where
  "extractOne env docUri index machineResult' =
     (if isTypedMachineResult env machineResult' then
        (case getTypegenData env (basename env docUri) index machineResult' of
           Inr t \<Rightarrow> \<lparr>machineResult = Some machineResult', types = Some t, configError = None\<rparr>
         | Inl e \<Rightarrow> \<lparr>machineResult = Some machineResult', types = None,
                     configError = Some (message_or_unknown e)\<rparr>)
      else
        (case introspectMachine env machineResult' of
           None \<Rightarrow> \<lparr>machineResult = Some machineResult', types = None, configError = None\<rparr>
         | Some e \<Rightarrow> \<lparr>machineResult = Some machineResult', types = None,
                      configError = Some (message_or_unknown e)\<rparr>))"

definition extractAll ::
  "('m, 'j, 'g, 'x) reconcile_env \<Rightarrow> string \<Rightarrow> 'm list \<Rightarrow> ('m, 'j) ExtractionResult list" where
  "extractAll env docUri machineResults =
     map (\<lambda>(index, machineResult'). extractOne env docUri index machineResult')
       (enumerate 0 machineResults)"

text \<open>\<open>.map((r) => r.types).filter(isTypegenData)\<close>: the types that are present.\<close>

definition typesOf :: "('m, 'j) ExtractionResult list \<Rightarrow> 'j TypegenData list" where
  "typesOf results = List.map_filter types results"

text \<open>How a block of statements ends: it falls through, returns, or throws.\<close>

datatype completion = Normal | Return | Throw js_exn

text \<open>\<open>previouslyCachedDocument?.extractionResults[i]\<close>, before a property of it is read:
  no previous document gives \<open>undefined\<close> for the whole chain, an index out of range
  makes the read of \<open>property\<close> throw.\<close>

definition previousSlot ::
  "('m, 'j) CachedDocument option \<Rightarrow> nat \<Rightarrow> string \<Rightarrow> js_exn + ('m, 'j) ExtractionResult option" where
  "previousSlot previouslyCachedDocument i property =
     (case previouslyCachedDocument of
        None \<Rightarrow> Inr None
      | Some previous \<Rightarrow>
          if i < length (extractionResults previous)
          then Inr (Some (extractionResults previous ! i))
          else Inl (cannot_read property))"

text \<open>The block \<open>if (displayedMachine?.uri === textDocument.uri) { ... }\<close>, with the
  notifications it sends.\<close>

definition displayedStep ::
  "('m, 'j, 'z) machine_api_scheme \<Rightarrow> DisplayedMachine option \<Rightarrow> string \<Rightarrow> string \<Rightarrow>
     ('m, 'j) CachedDocument option \<Rightarrow> ('m, 'j) ExtractionResult list \<Rightarrow>
     ('j, 'g) outgoing list \<times> completion" where
  "displayedStep env displayed docUri text previouslyCachedDocument results =
     (case displayed of
        None \<Rightarrow> ([], Normal)
      | Some dm \<Rightarrow>
          if displayed_uri dm \<noteq> docUri then ([], Normal)
          else if length results \<le> machineIndex dm then
            ([], Throw (cannot_destructure ''configError''
                          ''extractionResults[displayedMachine.machineIndex]''))
          else
            let slot = results ! machineIndex dm in
            if truthy (configError slot) then ([ExtractionError (configError slot)], Return)
            else
              (case previousSlot previouslyCachedDocument (machineIndex dm) ''configError'' of
                 Inl e \<Rightarrow> ([], Throw e)
               | Inr previous \<Rightarrow>
                   let cleared =
                         (if truthy (Option.bind previous configError)
                          then [ExtractionError None] else [])
                   in
                   (case machineResult slot of
                      None \<Rightarrow> (cleared, Throw (cannot_read ''toConfig''))
                    | Some machineResult' \<Rightarrow>
                        let updatedConfig = toConfig env machineResult' noOptions;
                            previousMachineResult = Option.bind previous machineResult
                        in
                        (case (updatedConfig, previousMachineResult) of
                           (Some updated, Some previousMachineResult') \<Rightarrow>
                             if toConfig env previousMachineResult' anonymize
                                  \<noteq> toConfig env machineResult' anonymize
                             then
                               (cleared @
                                [DisplayedMachineUpdated
                                   \<lparr>config = updatedConfig,
                                    layoutString = getLayoutComment env machineResult',
                                    implementations = getInlineImplementations env machineResult' text,
                                    namedGuards = getAllCondsNamed env machineResult'\<rparr>],
                                Normal)
                             else (cleared, Normal)
                         | _ \<Rightarrow> (cleared, Normal)))))"

text \<open>The statements after \<open>connection.sendDiagnostics\<close>: the \<open>typesUpdated\<close>
  notification.  \<open>deepEqual(undefined, array)\<close> is false.\<close>

definition typesUpdatedStep ::
  "string \<Rightarrow> ('m, 'j) CachedDocument option \<Rightarrow> 'j TypegenData list \<Rightarrow> ('j, 'g) outgoing list" where
  "typesUpdatedStep docUri previouslyCachedDocument types' =
     (let writableTypes = filter areTypesWritable types'
      in if writableTypes \<noteq> [] \<and>
            map_option
              (\<lambda>previous. map data (filter areTypesWritable (typesOf (extractionResults previous))))
              previouslyCachedDocument
            \<noteq> Some (map data writableTypes)
         then [TypesUpdated docUri types'] else [])"

text \<open>The \<open>catch\<close> block of \<open>handleDocumentChange\<close>.\<close>

definition catchBlock :: "DisplayedMachine option \<Rightarrow> string \<Rightarrow> js_exn \<Rightarrow> ('j, 'g) outgoing list" where
  "catchBlock displayed docUri e =
     (if map_option displayed_uri displayed = Some docUri
      then [ExtractionError (Some (message_or_unknown e))] else [])
     @ [Diagnostics docUri []]"

text \<open>
  \<open>handleDocumentChange\<close> returns what it sent and the new module state.  Every
  machine result is an object, so \<open>machineResults.filter((res) => !!res)\<close> keeps all.
\<close>

definition handleDocumentChange ::
  "('m, 'j, 'g, 'x) reconcile_env \<Rightarrow> TextDocument \<Rightarrow> ('m, 'j) server \<Rightarrow>
     ('j, 'g) outgoing list \<times> ('m, 'j) server" where
  "handleDocumentChange env textDocument st =
     (let previouslyCachedDocument = documentsCache st (uri textDocument);
          text = getText textDocument
      in case extractMachinesFromFile env text of
           Inl e \<Rightarrow> (catchBlock (displayedMachine st) (uri textDocument) e, st)
         | Inr None \<Rightarrow> ([], st)
         | Inr (Some extracted) \<Rightarrow>
             (case getDocumentSettings env st (uri textDocument) of
                (settings, st1) \<Rightarrow>
                  let machineResults = filterOutIgnoredMachines env extracted;
                      results = extractAll env (uri textDocument) machineResults;
                      types' = typesOf results;
                      st2 = st1\<lparr>documentsCache :=
                                 (documentsCache st1)(uri textDocument \<mapsto>
                                    \<lparr>documentText = text, extractionResults = results\<rparr>)\<rparr>
                  in (case displayedStep env (displayedMachine st2) (uri textDocument) text
                             previouslyCachedDocument results of
                        (sent, Throw e) \<Rightarrow>
                          (sent @ catchBlock (displayedMachine st2) (uri textDocument) e, st2)
                      | (sent, Return) \<Rightarrow> (sent, st2)
                      | (sent, Normal) \<Rightarrow>
                          (sent @
                           [Diagnostics (uri textDocument)
                              (getDiagnostics env (filter (\<lambda>res. True) machineResults)
                                 textDocument settings)] @
                           typesUpdatedStep (uri textDocument) previouslyCachedDocument types',
                           st2))))"

subsection \<open>\<open>getMachineAtIndex\<close>\<close>

definition getMachineAtIndex ::
  "('m, 'j, 'z) machine_api_scheme \<Rightarrow> string \<Rightarrow> nat \<Rightarrow> ('m, 'j) server \<Rightarrow> js_exn + 'j MachinePayload" where
  "getMachineAtIndex env docUri machineIndex' st =
     (case documentsCache st docUri of
        None \<Rightarrow> Inl (Error ''There were no machines recognized in this document'')
      | Some cachedDocument \<Rightarrow>
          if length (extractionResults cachedDocument) = 0
          then Inl (Error ''There were no machines recognized in this document'')
          else if length (extractionResults cachedDocument) \<le> machineIndex'
          then Inl (cannot_read ''machineResult'')
          else
            (case machineResult (extractionResults cachedDocument ! machineIndex') of
               None \<Rightarrow>
                 Inl (Error (''Machine '' @ string_of_nat machineIndex' @
                             '' was not found. This document has only '' @
                             string_of_nat (length (extractionResults cachedDocument)) @
                             '' machine(s)''))
             | Some machineResult' \<Rightarrow>
                 Inr \<lparr>config = toConfig env machineResult' hashInline,
                      layoutString = getLayoutComment env machineResult',
                      implementations =
                        getInlineImplementations env machineResult' (documentText cachedDocument),
                      namedGuards = getSetOfNames env (getAllCondsNamed env machineResult')\<rparr>))"

subsection \<open>\<open>applyMachineEdits\<close>\<close>

record RangePoint =
  line :: nat
  column :: nat
  index :: nat

record Modified =
  modified_range :: "RangePoint \<times> RangePoint"
  modified_newText :: string

text \<open>One element of \<open>textEdits\<close>; its \<open>type\<close> is always \<open>'replace'\<close>.\<close>

record ReplaceEdit =
  edit_uri :: string
  edit_range :: "RangePoint \<times> RangePoint"
  edit_newText :: string

text \<open>
  \<open>modify\<close> is the method of the machine result, \<open>getMachineNodesFromFile\<close> and
  \<open>getMachineExtractResult\<close> are the extractor's; the first two may throw, the last
  may return \<open>undefined\<close> (the \<open>!\<close> after the call is erased by the compiler).
  \<open>'e\<close> is the type of the edits, \<open>'f\<close> of the parsed file, \<open>'n\<close> of a machine node.
\<close>

record ('m, 'e, 'f, 'n) edit_env =
  modify :: "'m \<Rightarrow> 'e \<Rightarrow> js_exn + Modified"
  getMachineNodesFromFile :: "string \<Rightarrow> js_exn + 'f \<times> 'n list"
  getMachineExtractResult :: "'f \<Rightarrow> string \<Rightarrow> 'n option \<Rightarrow> 'm option"

text \<open>\<open>array[i]\<close>: \<open>undefined\<close> out of range.\<close>

definition at_index :: "'a list \<Rightarrow> nat \<Rightarrow> 'a option" where
  "at_index xs i = (if i < length xs then Some (xs ! i) else None)"

text \<open>\<open>text.slice(0, a) + newText + text.slice(b)\<close>.\<close>

definition splice :: "string \<Rightarrow> nat \<Rightarrow> nat \<Rightarrow> string \<Rightarrow> string" where
  "splice text a b newText = take a text @ newText @ drop b text"

text \<open>
  The cached document is one object, mutated in place: the assignment to
  \<open>cachedDocument.extractionResults[i].machineResult\<close> is an update of the slot
  \<open>i\<close> of the entry of the displayed document in \<open>documentsCache\<close>.
\<close>

definition applyMachineEdits ::
  "('m, 'e, 'f, 'n) edit_env \<Rightarrow> 'e \<Rightarrow> ('m, 'j) server \<Rightarrow>
     js_exn + ReplaceEdit list \<times> ('m, 'j) server" where
  "applyMachineEdits env machineEdits st =
     (case displayedMachine st of
        None \<Rightarrow>
          Inl (Error ''`applyMachineEdits` can only be requested when there is a displayed machine'')
      | Some dm \<Rightarrow>
          (case documentsCache st (displayed_uri dm) of
             None \<Rightarrow> Inl (cannot_read ''extractionResults'')
           | Some cachedDocument \<Rightarrow>
               (case at_index (extractionResults cachedDocument) (machineIndex dm) of
                  None \<Rightarrow> Inl (cannot_read ''machineResult'')
                | Some slot \<Rightarrow>
                    (case machineResult slot of
                       None \<Rightarrow> Inl (cannot_read ''modify'')
                     | Some machineResult' \<Rightarrow>
                         (case modify env machineResult' machineEdits of
                            Inl e \<Rightarrow> Inl e
                          | Inr modified \<Rightarrow>
                              let newDocumentText =
                                    splice (documentText cachedDocument)
                                      (index (fst (modified_range modified)))
                                      (index (snd (modified_range modified)))
                                      (modified_newText modified)
                              in
                              (case getMachineNodesFromFile env newDocumentText of
                                 Inl e \<Rightarrow> Inl e
                               | Inr (file, machineNodes) \<Rightarrow>
                                   let reextracted =
                                         getMachineExtractResult env file newDocumentText
                                           (at_index machineNodes (machineIndex dm));
                                       cachedDocument' =
                                         cachedDocument
                                           \<lparr>extractionResults :=
                                              (extractionResults cachedDocument)
                                                [machineIndex dm := slot\<lparr>machineResult := reextracted\<rparr>]\<rparr>
                                   in Inr ([\<lparr>edit_uri = displayed_uri dm,
                                              edit_range = modified_range modified,
                                              edit_newText = modified_newText modified\<rparr>],
                                           st\<lparr>documentsCache :=
                                                (documentsCache st)(displayed_uri dm \<mapsto> cachedDocument')\<rparr>)))))))"

subsection \<open>\<open>getTextEditsForImplementation\<close>\<close>

record Position =
  position_line :: nat
  character :: nat

record Range =
  range_start :: Position
  range_end :: Position

record TextEdit =
  range :: Range
  newText :: string

text \<open>A syntax node with its source location \<open>loc\<close> (of type \<open>'l\<close>) and its offsets.\<close>

record 'l Node =
  loc :: "'l option"
  node_start :: nat
  node_end :: nat

text \<open>An object of the options (\<open>actions\<close>, \<open>services\<close> or \<open>guards\<close>): its node and the
  keys of its properties.\<close>

record 'l CategoryResult =
  category_node :: "'l Node"
  properties :: "string list"

record 'l OptionsResult =
  options_node :: "'l Node"
  actions :: "'l CategoryResult option"
  services :: "'l CategoryResult option"
  guards :: "'l CategoryResult option"

text \<open>\<open>machine.machineCallResult\<close>: the node of the definition and the options, each
  absent or present.\<close>

record 'l MachineCallResult =
  definition_node :: "'l Node option"
  options :: "'l OptionsResult option"








subsection \<open>\<open>connection.onCodeAction\<close>\<close>

text \<open>
  The result of \<open>getCursorHoverType\<close>, which is a parameter, as the handler reads it:
  its \<open>type\<close>, its \<open>machine\<close> and its \<open>name\<close>.  \<open>machineCallResult\<close> is the field of
  the machine result.  A code action carries the edits of one document.
\<close>

datatype HoverType = TARGET | INITIAL | ACTION | COND | SERVICE






subsection \<open>A machine with an invalid config\<close>

text \<open>
  The exception that the processing of one machine throws inside its own \<open>try\<close>, if
  it throws: \<open>getTypegenData\<close> for a typed machine, the introspection for an untyped one.
\<close>

definition invalidConfig ::
  "('m, 'j, 'g, 'x) reconcile_env \<Rightarrow> string \<Rightarrow> nat \<Rightarrow> 'm \<Rightarrow> js_exn option" where
  "invalidConfig env docUri i machineResult' =
     (if isTypedMachineResult env machineResult' then
        (case getTypegenData env (basename env docUri) i machineResult' of
           Inl e \<Rightarrow> Some e
         | Inr t \<Rightarrow> None)
      else introspectMachine env machineResult')"

subsection \<open>A sample installation\<close>

text \<open>
  Machines, configs and diagnostics are strings.  The extractor returns \<open>extraction\<close>
  for every text and drops the machines called \<open>ignored\<close>; a machine whose name
  starts with \<open>typed\<close> is typed; \<open>typed-broken\<close> and \<open>broken\<close> have an invalid config;
  the recorded type surface of \<open>typed-stale\<close> differs from the computed one.
\<close>

definition sample_env ::
  "js_exn + string list option \<Rightarrow> (string, string, string, string list) reconcile_env" where
  "sample_env extraction =
     \<lparr>toConfig = (\<lambda>m opts. Some m),
      getLayoutComment = (\<lambda>m. None),
      getInlineImplementations = (\<lambda>m text. text),
      getAllCondsNamed = (\<lambda>m. []),
      getSetOfNames = (\<lambda>names. names),
      extractMachinesFromFile = (\<lambda>text. extraction),
      filterOutIgnoredMachines = filter (\<lambda>m. m \<noteq> ''ignored''),
      getConfiguration = (\<lambda>resource. defaultSettings),
      basename = (\<lambda>u. ''machine.ts''),
      isTypedMachineResult = prefix ''typed'',
      getTypegenData = (\<lambda>base i m.
        if m = ''typed-broken'' then Inl (Error ''Invalid types'')
        else Inr \<lparr>typesNode_value = (if m = ''typed-stale'' then ''stale'' else m),
                  data = \<lparr>tsTypesValue = m, otherData = base\<rparr>\<rparr>),
      introspectMachine = (\<lambda>m. if m = ''broken'' then Some (Error ''Invalid config'') else None),
      getDiagnostics = (\<lambda>ms doc settings. map (\<lambda>m. ''checked '' @ m) ms)\<rparr>"

definition sample_server :: "DisplayedMachine option \<Rightarrow> (string, string) server" where
  "sample_server displayed =
     \<lparr>hasConfigurationCapability = False,
      globalSettings = defaultSettings,
      documentSettings = Map.empty,
      documentsCache = Map.empty,
      displayedMachine = displayed\<rparr>"

definition sample_document :: TextDocument where
  "sample_document = \<lparr>uri = ''file:///machine.ts'', getText = ''createMachine({})''\<rparr>"

definition sample_typegen :: "string \<Rightarrow> string \<Rightarrow> string TypegenData" where
  "sample_typegen recorded computed =
     \<lparr>typesNode_value = recorded, data = \<lparr>tsTypesValue = computed, otherData = ''machine.ts''\<rparr>\<rparr>"

text \<open>The server after a first pass over the sample document with the given machines.\<close>

definition sample_previous :: "string list \<Rightarrow> (string, string) server" where
  "sample_previous machines =
     snd (handleDocumentChange (sample_env (Inr (Some machines))) sample_document
            (sample_server None))"

definition sample_api :: "(string, string) machine_api" where
  "sample_api =
     \<lparr>toConfig = (\<lambda>m opts. Some m),
      getLayoutComment = (\<lambda>m. None),
      getInlineImplementations = (\<lambda>m text. text),
      getAllCondsNamed = (\<lambda>m. []),
      getSetOfNames = (\<lambda>names. names)\<rparr>"

text \<open>
  A sample extractor for the edits: a text holds one machine, whose result is the text
  itself; an edit is the replacement it asks for.
\<close>

definition sample_edit_env :: "(string, Modified, unit, string) edit_env" where
  "sample_edit_env =
     \<lparr>modify = (\<lambda>m edit. Inr edit),
      getMachineNodesFromFile = (\<lambda>text. Inr ((), [text])),
      getMachineExtractResult = (\<lambda>file text node. node)\<rparr>"

definition sample_edit :: Modified where
  "sample_edit =
     \<lparr>modified_range = (\<lparr>line = 0, column = 14, index = 14\<rparr>, \<lparr>line = 0, column = 16, index = 16\<rparr>),
      modified_newText = ''{ id: 1 }''\<rparr>"










text \<open>The sample server after a pass over two machines, with the first one displayed.\<close>

definition sample_displayed :: "(string, string) server" where
  "sample_displayed =
     (sample_previous [''old'', ''plain''])
       \<lparr>displayedMachine := Some \<lparr>displayed_uri = ''file:///machine.ts'', machineIndex = 0\<rparr>\<rparr>"


section \<open>Properties\<close>

subsection \<open>Insertion-ordered sets\<close>

lemma foldl_set_add:
  "foldl set_add acc xs = acc @ filter (\<lambda>y. y \<notin> set acc) (first_seen xs)"
proof (induction xs arbitrary: acc)
  case Nil
  show ?case by simp
next
  case (Cons x xs)
  show ?case
  proof (cases "x \<in> set acc")
    case True
    have "filter (\<lambda>y. y \<notin> set acc) (filter (\<lambda>y. y \<noteq> x) (first_seen xs))
            = filter (\<lambda>y. y \<notin> set acc) (first_seen xs)"
      using True by (auto intro: filter_cong)
    with True Cons.IH [of acc] show ?thesis by (simp add: set_add_def)
  next
    case False
    have "filter (\<lambda>y. y \<notin> set (acc @ [x])) (first_seen xs)
            = filter (\<lambda>y. y \<notin> set acc) (filter (\<lambda>y. y \<noteq> x) (first_seen xs))"
      by (auto intro: filter_cong)
    with False Cons.IH [of "acc @ [x]"] show ?thesis by (simp add: set_add_def)
  qed
qed

lemma unique_eq_first_seen: "unique xs = first_seen xs"
  by (simp add: unique_def foldl_set_add)

lemma set_first_seen: "set (first_seen xs) = set xs"
  by (induction xs) auto

lemma distinct_first_seen: "distinct (first_seen xs)"
  by (induction xs) (auto simp: set_first_seen)

lemma first_seen_in_order:
  "sorted_wrt (\<lambda>a b. first_index xs a < first_index xs b) (first_seen xs)"
proof (induction xs)
  case Nil
  show ?case by simp
next
  case (Cons x xs)
  have "sorted_wrt (\<lambda>a b. first_index xs a < first_index xs b)
          (filter (\<lambda>y. y \<noteq> x) (first_seen xs))"
    using Cons.IH by (rule sorted_wrt_filter)
  then have "sorted_wrt (\<lambda>a b. first_index (x # xs) a < first_index (x # xs) b)
          (filter (\<lambda>y. y \<noteq> x) (first_seen xs))"
    by (rule sorted_wrt_mono_rel [rotated]) auto
  then show ?case by auto
qed

subsection \<open>Event-name unions\<close>

text \<open>
  C8.  The rendering of the generated types is a function of the introspection lines,
  so two runs over the same lines give the same text.  In each rendered union the
  event names stand in first-seen order: \<open>unique\<close> keeps the first occurrence of
  every name and drops the later ones, the result has no repetition, holds exactly the
  names of the input, and its order is that of the first occurrences; and
  \<open>displayEventsCausing\<close> renders, for each line, the names in that order (or
  \<open>string\<close> when there is none).
\<close>

theorem unique_preserves_first_seen_order:
  "unique xs = first_seen xs \<and> distinct (unique xs) \<and> set (unique xs) = set xs \<and>
   sorted_wrt (\<lambda>a b. first_index xs a < first_index xs b) (unique xs) \<and>
   displayEventsCausing lines =
     js_join nl
       (map (\<lambda>line. sq @ name line @ sq @ '': '' @
               js_or (js_join '' | '' (map (\<lambda>event. sq @ event @ sq) (first_seen (events line))))
                 ''string'' @ '';'')
          lines)"
  by (simp add: unique_eq_first_seen distinct_first_seen set_first_seen first_seen_in_order
      displayEventsCausing_def)

theorem unique_preserves_first_seen_order_witness:
  "unique [''B'', ''A'', ''B'', ''C'', ''A''] = [''B'', ''A'', ''C''] \<and>
   displayEventsCausing
     [\<lparr>name = ''save'', events = [''B'', ''A'', ''B'']\<rparr>, \<lparr>name = ''load'', events = []\<rparr>]
     = sq @ ''save'' @ sq @ '': '' @ sq @ ''B'' @ sq @ '' | '' @ sq @ ''A'' @ sq @ '';'' @ nl @
       sq @ ''load'' @ sq @ '': string;''"
  using unique_preserves_first_seen_order
    [of "[''B'', ''A'', ''B'', ''C'', ''A'']"
        "[\<lparr>name = ''save'', events = [''B'', ''A'', ''B'']\<rparr>, \<lparr>name = ''load'', events = []\<rparr>]"]
  by (simp add: js_or_def)

subsection \<open>Internal events\<close>

lemma lit_then_iff: "lit_then l k s \<longleftrightarrow> (\<exists>r. s = l @ r \<and> k r)"
  by (auto simp: lit_then_def prefix_def)

lemma dots_then_iff:
  "dots_then k s \<longleftrightarrow> (\<exists>a b. s = a @ b \<and> (\<forall>c \<in> set a. \<not> line_terminator c) \<and> k b)"
proof (induction s)
  case Nil
  show ?case by simp
next
  case (Cons c cs)
  show ?case
  proof
    assume "dots_then k (c # cs)"
    then consider "k (c # cs)" | "\<not> line_terminator c" "dots_then k cs" by auto
    then show "\<exists>a b. c # cs = a @ b \<and> (\<forall>c \<in> set a. \<not> line_terminator c) \<and> k b"
    proof cases
      case 1
      then have "c # cs = [] @ (c # cs) \<and> (\<forall>c \<in> set []. \<not> line_terminator c) \<and> k (c # cs)"
        by simp
      then show ?thesis by blast
    next
      case 2
      with Cons.IH obtain a b where "cs = a @ b" "\<forall>c \<in> set a. \<not> line_terminator c" "k b"
        by blast
      with 2 have "c # cs = (c # a) @ b \<and> (\<forall>d \<in> set (c # a). \<not> line_terminator d) \<and> k b"
        by simp
      then show ?thesis by blast
    qed
  next
    assume "\<exists>a b. c # cs = a @ b \<and> (\<forall>c \<in> set a. \<not> line_terminator c) \<and> k b"
    then obtain a b where ab: "c # cs = a @ b" "\<forall>c \<in> set a. \<not> line_terminator c" "k b"
      by blast
    show "dots_then k (c # cs)"
    proof (cases a)
      case Nil
      with ab have "b = c # cs" by simp
      with ab show ?thesis by simp
    next
      case (Cons d ds)
      with ab have "cs = ds @ b" "\<forall>c \<in> set ds. \<not> line_terminator c" "\<not> line_terminator c"
        by auto
      with ab Cons.IH show ?thesis by auto
    qed
  qed
qed

lemma search_from_iff: "search_from k s \<longleftrightarrow> (\<exists>a b. s = a @ b \<and> k b)"
proof (induction s)
  case Nil
  show ?case by simp
next
  case (Cons c cs)
  show ?case
  proof
    assume "search_from k (c # cs)"
    then consider "k (c # cs)" | "search_from k cs" by auto
    then show "\<exists>a b. c # cs = a @ b \<and> k b"
    proof cases
      case 1
      then have "c # cs = [] @ (c # cs) \<and> k (c # cs)" by simp
      then show ?thesis by blast
    next
      case 2
      with Cons.IH obtain a b where "cs = a @ b" "k b" by blast
      then have "c # cs = (c # a) @ b \<and> k b" by simp
      then show ?thesis by blast
    qed
  next
    assume "\<exists>a b. c # cs = a @ b \<and> k b"
    then obtain a b where ab: "c # cs = a @ b" "k b" by blast
    show "search_from k (c # cs)"
    proof (cases a)
      case Nil
      with ab have "b = c # cs" by simp
      with ab show ?thesis by simp
    next
      case (Cons d ds)
      with ab have "cs = ds @ b" by simp
      with ab Cons.IH show ?thesis by auto
    qed
  qed
qed

text \<open>The matcher is the regular expression: a name matches when it holds, anywhere,
  \<open>done.invoke.\<close>, then \<open>:invocation[\<close>, then \<open>]\<close>, with no line terminator in the two
  gaps between them.\<close>

lemma inlineInvocationName_iff:
  "inlineInvocationName event \<longleftrightarrow>
     (\<exists>before a b after.
        event = before @ ''done.invoke.'' @ a @ '':invocation['' @ b @ '']'' @ after \<and>
        (\<forall>c \<in> set a. \<not> line_terminator c) \<and> (\<forall>c \<in> set b. \<not> line_terminator c))"
  unfolding inlineInvocationName_def search_from_iff lit_then_iff dots_then_iff
  by (simp only: simp_thms) blast

lemma foldl_add_event:
  "foldl add_event acc es = foldl set_add acc (List.map_filter internalEventEntry es)"
  by (induction es arbitrary: acc)
    (auto simp: add_event_def List.map_filter_simps split: option.splits)

lemma foldl_lines:
  "foldl (\<lambda>acc line. foldl add_event acc (events line)) acc lines
     = foldl add_event acc (concat (map events lines))"
  by (induction lines arbitrary: acc) auto

lemma foldl_lineArrays:
  "foldl (\<lambda>acc lines. foldl (\<lambda>acc line. foldl add_event acc (events line)) acc lines)
       acc lineArrays
     = foldl add_event acc (concat (map events (concat lineArrays)))"
  by (induction lineArrays arbitrary: acc) (auto simp: foldl_lines)

lemma collectInternalEvents_first_seen:
  "collectInternalEvents lineArrays =
     first_seen (List.map_filter internalEventEntry (concat (map events (concat lineArrays))))"
proof -
  have "collectInternalEvents lineArrays
          = foldl add_event [] (concat (map events (concat lineArrays)))"
    by (simp only: collectInternalEvents_def foldl_lineArrays)
  then show ?thesis by (simp add: foldl_add_event foldl_set_add)
qed

lemma platform_not_others:
  "prefix ''error.platform'' event \<Longrightarrow>
     \<not> prefix ''done.invoke'' event \<and> \<not> prefix ''xstate.'' event \<and> event \<noteq> []"
  by (auto simp: prefix_def)

lemma internal_not_done:
  "prefix ''xstate.'' event \<or> event = [] \<Longrightarrow> \<not> prefix ''done.invoke'' event"
  by (auto simp: prefix_def)

text \<open>
  C9, as stated, fails: the entry of a name with the prefix \<open>error.platform\<close> has a
  \<open>data\<close> payload typed \<open>unknown\<close> and no hint (no \<open>__tip\<close>).
\<close>

theorem platform_error_entry_has_no_hint:
  \<open>prefix ''error.platform'' ''error.platform.fetch'' \<and>
   collectInternalEvents [[\<lparr>name = ''fetch'', events = [''error.platform.fetch'']\<rparr>]]
     = [sq @ ''error.platform.fetch'' @ sq @ '': { type: '' @ sq @ ''error.platform.fetch'' @ sq @
        ''; data: unknown; };''] \<and>
   \<not> includes_str (sq @ ''error.platform.fetch'' @ sq @ '': { type: '' @ sq @
                      ''error.platform.fetch'' @ sq @ ''; data: unknown; };'') ''__tip''\<close>
  by (simp add: collectInternalEvents_def add_event_def internalEventEntry_def
      inlineInvocationName_def lit_then_def line_terminator_def set_add_def)

text \<open>
  C9, amended.  The entries are decided in this order: a name that matches the
  inline-invocation pattern anywhere gets \<open>data: unknown\<close> and the tip to name the
  service; otherwise a name with the prefix \<open>done.invoke\<close> gets \<open>data: unknown\<close> and
  the tip to provide an event type; otherwise a name with the prefix
  \<open>error.platform\<close> gets \<open>data: unknown\<close> and no tip; otherwise a name with the
  prefix \<open>xstate.\<close>, or the empty name, gets its type only; any other name gets no
  entry.  The collection holds the entries of all events of all lines, each once, in
  first-seen order.
\<close>

theorem internal_event_entries:
  \<open>(inlineInvocationName event \<longrightarrow>
      internalEventEntry event =
        Some (sq @ event @ sq @ '': {'' @ nl @
              ''              // Tip appears here?'' @ nl @
              ''              type: '' @ sq @ event @ sq @
              ''; data: unknown; __tip: "Give this service a name and move it into the machine options to strongly type it" };'')) \<and>
   (\<not> inlineInvocationName event \<and> prefix ''done.invoke'' event \<longrightarrow>
      internalEventEntry event =
        Some (sq @ event @ sq @ '': { type: '' @ sq @ event @ sq @
              ''; data: unknown; __tip: "Provide an event of type { type: '' @ sq @ event @ sq @
              ''; data: any } to strongly type this" };'')) \<and>
   (\<not> inlineInvocationName event \<and> prefix ''error.platform'' event \<longrightarrow>
      internalEventEntry event =
        Some (sq @ event @ sq @ '': { type: '' @ sq @ event @ sq @ ''; data: unknown; };'')) \<and>
   (\<not> inlineInvocationName event \<and> (prefix ''xstate.'' event \<or> event = []) \<longrightarrow>
      internalEventEntry event =
        Some (sq @ event @ sq @ '': { type: '' @ sq @ event @ sq @ '' };'')) \<and>
   (\<not> inlineInvocationName event \<and> \<not> prefix ''done.invoke'' event \<and>
    \<not> prefix ''error.platform'' event \<and> \<not> prefix ''xstate.'' event \<and> event \<noteq> [] \<longrightarrow>
      internalEventEntry event = None) \<and>
   collectInternalEvents lineArrays =
     first_seen (List.map_filter internalEventEntry (concat (map events (concat lineArrays))))\<close>
  using platform_not_others [of event] internal_not_done [of event]
  by (auto simp: internalEventEntry_def collectInternalEvents_first_seen)

theorem internal_event_entries_witness:
  \<open>internalEventEntry ''done.invoke.machine.loading:invocation[0]'' =
     Some (sq @ ''done.invoke.machine.loading:invocation[0]'' @ sq @ '': {'' @ nl @
           ''              // Tip appears here?'' @ nl @
           ''              type: '' @ sq @ ''done.invoke.machine.loading:invocation[0]'' @ sq @
           ''; data: unknown; __tip: "Give this service a name and move it into the machine options to strongly type it" };'') \<and>
   internalEventEntry ''done.invoke.fetch'' =
     Some (sq @ ''done.invoke.fetch'' @ sq @ '': { type: '' @ sq @ ''done.invoke.fetch'' @ sq @
           ''; data: unknown; __tip: "Provide an event of type { type: '' @ sq @
           ''done.invoke.fetch'' @ sq @ ''; data: any } to strongly type this" };'') \<and>
   internalEventEntry ''error.platform.fetch'' =
     Some (sq @ ''error.platform.fetch'' @ sq @ '': { type: '' @ sq @ ''error.platform.fetch'' @ sq @
           ''; data: unknown; };'') \<and>
   internalEventEntry ''xstate.init'' =
     Some (sq @ ''xstate.init'' @ sq @ '': { type: '' @ sq @ ''xstate.init'' @ sq @ '' };'') \<and>
   internalEventEntry ''CLICK'' = None \<and>
   collectInternalEvents
     [[\<lparr>name = ''log'', events = [''xstate.init'', ''CLICK'', ''xstate.init'']\<rparr>]]
     = [sq @ ''xstate.init'' @ sq @ '': { type: '' @ sq @ ''xstate.init'' @ sq @ '' };'']\<close>
  using internal_event_entries [of "''done.invoke.machine.loading:invocation[0]''" "[]"]
    internal_event_entries [of "''done.invoke.fetch''" "[]"]
    internal_event_entries [of "''error.platform.fetch''" "[]"]
    internal_event_entries [of "''xstate.init''" "[]"]
    internal_event_entries [of "''CLICK''"
      "[[\<lparr>name = ''log'', events = [''xstate.init'', ''CLICK'', ''xstate.init'']\<rparr>]]"]
  by (simp add: inlineInvocationName_def lit_then_def line_terminator_def
      List.map_filter_simps)

subsection \<open>The reconciliation pass\<close>

lemmas sample_defs = sample_env_def sample_server_def sample_document_def sample_typegen_def
  sample_previous_def handleDocumentChange_def getDocumentSettings_def extractAll_def
  extractOne_def typesOf_def displayedStep_def typesUpdatedStep_def catchBlock_def
  areTypesWritable_def previousSlot_def cannot_destructure_def cannot_read_def
  defaultSettings_def noOptions_def anonymize_def invalidConfig_def
  List.map_filter_simps enumerate_eq_zip

lemma getDocumentSettings_frame:
  "documentsCache (snd (getDocumentSettings env st resource)) = documentsCache st \<and>
   displayedMachine (snd (getDocumentSettings env st resource)) = displayedMachine st"
  by (simp add: getDocumentSettings_def Let_def split: option.split)

lemma length_extractAll: "length (extractAll env docUri ms) = length ms"
  by (simp add: extractAll_def)

lemma extractAll_nth:
  "i < length ms \<Longrightarrow> extractAll env docUri ms ! i = extractOne env docUri i (ms ! i)"
  by (simp add: extractAll_def nth_enumerate_eq)

lemma handleDocumentChange_cache:
  assumes "extractMachinesFromFile env (getText doc) = Inr (Some extracted)"
  shows "documentsCache (snd (handleDocumentChange env doc st)) (uri doc) =
           Some \<lparr>documentText = getText doc,
                 extractionResults =
                   extractAll env (uri doc) (filterOutIgnoredMachines env extracted)\<rparr>"
  using assms
  by (simp add: handleDocumentChange_def Let_def split: prod.split completion.split)

lemma displayedStep_sends:
  fixes sent :: "('j, 'g) outgoing list"
  assumes "displayedStep env d u t p r = (sent, c)"
  shows "TypesUpdated a b \<notin> set sent \<and> Diagnostics a' b' \<notin> set sent"
  using assms
  by (auto simp: displayedStep_def Let_def
      split: option.splits if_splits sum.splits prod.splits)

text \<open>
  C4.  When the extractor returns nothing, the pass sends nothing (no diagnostics, no
  notification) and leaves the whole module state as it was: the cache entry of the
  document, the cached settings and the displayed machine.
\<close>

theorem nothing_extracted_stops_pass:
  "extractMachinesFromFile env (getText textDocument) = Inr None \<Longrightarrow>
     handleDocumentChange env textDocument st = ([], st)"
  by (simp add: handleDocumentChange_def)

theorem nothing_extracted_stops_pass_witness:
  "handleDocumentChange (sample_env (Inr None)) sample_document (sample_previous [''plain''])
     = ([], sample_previous [''plain'']) \<and>
   documentsCache (sample_previous [''plain'']) (uri sample_document)
     = Some \<lparr>documentText = ''createMachine({})'',
             extractionResults =
               [\<lparr>machineResult = Some ''plain'', types = None, configError = None\<rparr>]\<rparr>"
  using nothing_extracted_stops_pass
    [of "sample_env (Inr None)" sample_document "sample_previous [''plain'']"]
  by (simp add: sample_defs)

text \<open>
  C1 fails on the code.  With the one machine of the document displayed and its config
  invalid, the pass sends the \<open>extractionError\<close> notification and returns: no
  diagnostics are published.  For the same document, not displayed, they are.
\<close>

theorem displayed_configError_publishes_no_diagnostics:
  "fst (handleDocumentChange (sample_env (Inr (Some [''broken'']))) sample_document
          (sample_server (Some \<lparr>displayed_uri = ''file:///machine.ts'', machineIndex = 0\<rparr>)))
     = [ExtractionError (Some ''Invalid config'')] \<and>
   fst (handleDocumentChange (sample_env (Inr (Some [''broken'']))) sample_document
          (sample_server None))
     = [Diagnostics ''file:///machine.ts'' [''checked broken'']]"
  by (simp add: sample_defs)

text \<open>
  C2, as stated, fails.  After a pass that cached one in-sync machine, a pass whose only
  machine is out of sync changes the set of in-sync machines (from one to none) and
  sends no \<open>typesUpdated\<close>; and a first pass over an in-sync and an out-of-sync machine
  sends the types of both.
\<close>

theorem typesUpdated_not_iff_in_sync_set_differs:
  "map data (filter areTypesWritable (typesOf (extractionResults
      (the (documentsCache (sample_previous [''typed-sync'']) ''file:///machine.ts'')))))
     = [\<lparr>tsTypesValue = ''typed-sync'', otherData = ''machine.ts''\<rparr>] \<and>
   map data (filter areTypesWritable (typesOf (extractionResults
      (the (documentsCache
         (snd (handleDocumentChange (sample_env (Inr (Some [''typed-stale'']))) sample_document
                 (sample_previous [''typed-sync''])))
         ''file:///machine.ts'')))))
     = [] \<and>
   fst (handleDocumentChange (sample_env (Inr (Some [''typed-stale'']))) sample_document
          (sample_previous [''typed-sync'']))
     = [Diagnostics ''file:///machine.ts'' [''checked typed-stale'']] \<and>
   fst (handleDocumentChange (sample_env (Inr (Some [''typed-sync'', ''typed-stale''])))
          sample_document (sample_server None))
     = [Diagnostics ''file:///machine.ts'' [''checked typed-sync'', ''checked typed-stale''],
        TypesUpdated ''file:///machine.ts''
          [sample_typegen ''typed-sync'' ''typed-sync'', sample_typegen ''stale'' ''typed-stale'']] \<and>
   \<not> areTypesWritable (sample_typegen ''stale'' ''typed-stale'')"
  by (simp add: sample_defs)

text \<open>
  C2, amended.  On a pass in which the extractor yields machines and the block of the
  displayed machine falls through (it neither returns nor throws), \<open>typesUpdated\<close> is
  sent if and only if the current batch has at least one in-sync machine and the list
  of the type data of its in-sync machines differs from that of the previous cached
  batch (no previous batch counts as different); it is sent for the document, with the
  type data of all the machines of the current batch that have types, in sync or not.
\<close>

theorem typesUpdated_iff:
  fixes env :: "('m, 'j, 'g, 'x) reconcile_env" and sent :: "('j, 'g) outgoing list"
  assumes extracted: "extractMachinesFromFile env (getText doc) = Inr (Some extracted)"
    and results: "results = extractAll env (uri doc) (filterOutIgnoredMachines env extracted)"
    and step: "displayedStep env (displayedMachine st) (uri doc) (getText doc)
                 (documentsCache st (uri doc)) results = (sent, Normal)"
  shows "TypesUpdated u payload \<in> set (fst (handleDocumentChange env doc st)) \<longleftrightarrow>
           u = uri doc \<and> payload = typesOf results \<and>
           filter areTypesWritable (typesOf results) \<noteq> [] \<and>
           map_option
             (\<lambda>previous. map data (filter areTypesWritable (typesOf (extractionResults previous))))
             (documentsCache st (uri doc))
           \<noteq> Some (map data (filter areTypesWritable (typesOf results)))"
proof -
  obtain settings st1 where gs: "getDocumentSettings env st (uri doc) = (settings, st1)"
    by (cases "getDocumentSettings env st (uri doc)")
  have dm1: "displayedMachine st1 = displayedMachine st"
    using getDocumentSettings_frame [of env st "uri doc"] gs by simp
  have out: "fst (handleDocumentChange env doc st) =
          sent @ [Diagnostics (uri doc)
                    (getDiagnostics env (filterOutIgnoredMachines env extracted) doc settings)] @
          typesUpdatedStep (uri doc) (documentsCache st (uri doc)) (typesOf results)"
    using extracted gs dm1 step results
    by (simp add: handleDocumentChange_def Let_def)
  have none: "TypesUpdated u payload \<notin> set sent"
    using displayedStep_sends [OF step] by simp
  show ?thesis
    unfolding out using none
    by (auto simp: typesUpdatedStep_def Let_def)
qed

theorem typesUpdated_iff_witness:
  "TypesUpdated ''file:///machine.ts''
      [sample_typegen ''typed-sync'' ''typed-sync'', sample_typegen ''stale'' ''typed-stale'']
     \<in> set (fst (handleDocumentChange (sample_env (Inr (Some [''typed-sync'', ''typed-stale''])))
                  sample_document (sample_server None)))"
  using typesUpdated_iff
    [of "sample_env (Inr (Some [''typed-sync'', ''typed-stale'']))" sample_document
        "[''typed-sync'', ''typed-stale'']"
        "extractAll (sample_env (Inr (Some [''typed-sync'', ''typed-stale''])))
           (uri sample_document) [''typed-sync'', ''typed-stale'']"
        "sample_server None" "[]" "''file:///machine.ts''"
        "[sample_typegen ''typed-sync'' ''typed-sync'', sample_typegen ''stale'' ''typed-stale'']"]
  by (simp add: sample_env_def sample_server_def sample_document_def sample_typegen_def
      extractAll_def extractOne_def typesOf_def displayedStep_def areTypesWritable_def
      List.map_filter_simps enumerate_eq_zip)

text \<open>
  C5.  When the displayed machine belongs to the document and its index is past the end
  of the new batch, the read of the slot throws inside the \<open>try\<close>; the exception
  does not leave the handler.  The new batch is cached, and the pass sends exactly one
  \<open>extractionError\<close> notification (with the message of the exception) and the empty
  diagnostics: no update of the displayed machine, no \<open>typesUpdated\<close>.
\<close>

theorem displayed_index_past_end_is_caught:
  fixes env :: "('m, 'j, 'g, 'x) reconcile_env"
  assumes extracted: "extractMachinesFromFile env (getText doc) = Inr (Some extracted)"
    and displayed: "displayedMachine st = Some dm" "displayed_uri dm = uri doc"
    and past: "length (filterOutIgnoredMachines env extracted) \<le> machineIndex dm"
  shows "displayedStep env (displayedMachine st) (uri doc) (getText doc)
           (documentsCache st (uri doc))
           (extractAll env (uri doc) (filterOutIgnoredMachines env extracted))
         = (([] :: ('j, 'g) outgoing list),
            Throw (cannot_destructure ''configError''
                     ''extractionResults[displayedMachine.machineIndex]'')) \<and>
         fst (handleDocumentChange env doc st) =
           [ExtractionError
              (Some (message_or_unknown
                 (cannot_destructure ''configError''
                    ''extractionResults[displayedMachine.machineIndex]''))),
            Diagnostics (uri doc) []] \<and>
         documentsCache (snd (handleDocumentChange env doc st)) (uri doc) =
           Some \<lparr>documentText = getText doc,
                 extractionResults =
                   extractAll env (uri doc) (filterOutIgnoredMachines env extracted)\<rparr>"
proof -
  obtain settings st1 where gs: "getDocumentSettings env st (uri doc) = (settings, st1)"
    by (cases "getDocumentSettings env st (uri doc)")
  have dm1: "displayedMachine st1 = Some dm"
    using getDocumentSettings_frame [of env st "uri doc"] gs displayed by simp
  have step: "displayedStep env (Some dm) (uri doc) (getText doc) (documentsCache st (uri doc))
                (extractAll env (uri doc) (filterOutIgnoredMachines env extracted))
              = (([] :: ('j, 'g) outgoing list),
                 Throw (cannot_destructure ''configError''
                          ''extractionResults[displayedMachine.machineIndex]''))"
    using displayed past by (simp add: displayedStep_def length_extractAll)
  have sent: "fst (handleDocumentChange env doc st) =
           [ExtractionError
              (Some (message_or_unknown
                 (cannot_destructure ''configError''
                    ''extractionResults[displayedMachine.machineIndex]''))),
            Diagnostics (uri doc) []]"
    using extracted gs dm1 displayed(2)
    by (simp add: handleDocumentChange_def Let_def step catchBlock_def)
  from step sent handleDocumentChange_cache [OF extracted] displayed(1)
  show ?thesis by simp
qed

theorem displayed_index_past_end_is_caught_witness:
  "fst (handleDocumentChange (sample_env (Inr (Some [''plain'']))) sample_document
          (sample_server (Some \<lparr>displayed_uri = ''file:///machine.ts'', machineIndex = 2\<rparr>)))
     = [ExtractionError
          (Some (''Cannot destructure property '' @ sq @ ''configError'' @ sq @ '' of '' @ sq @
                 ''extractionResults[displayedMachine.machineIndex]'' @ sq @
                 '' as it is undefined.'')),
        Diagnostics ''file:///machine.ts'' []]"
  using displayed_index_past_end_is_caught
    [of "sample_env (Inr (Some [''plain'']))" sample_document "[''plain'']"
        "sample_server (Some \<lparr>displayed_uri = ''file:///machine.ts'', machineIndex = 2\<rparr>)"
        "\<lparr>displayed_uri = ''file:///machine.ts'', machineIndex = 2\<rparr>"]
  by (simp add: sample_env_def sample_server_def sample_document_def cannot_destructure_def)

lemma extractOne_valid:
  assumes "invalidConfig env docUri i m = None"
  shows "machineResult (extractOne env docUri i m) = Some m \<and>
         configError (extractOne env docUri i m) = None \<and>
         (isTypedMachineResult env m \<longrightarrow>
            (\<exists>t. getTypegenData env (basename env docUri) i m = Inr t \<and>
                 types (extractOne env docUri i m) = Some t)) \<and>
         (\<not> isTypedMachineResult env m \<longrightarrow> types (extractOne env docUri i m) = None)"
  using assms
  by (auto simp: invalidConfig_def extractOne_def split: sum.splits option.splits if_splits)

lemma extractOne_invalid:
  assumes "invalidConfig env docUri i m = Some e"
  shows "machineResult (extractOne env docUri i m) = Some m \<and>
         configError (extractOne env docUri i m) = Some (message_or_unknown e) \<and>
         types (extractOne env docUri i m) = None"
  using assms
  by (auto simp: invalidConfig_def extractOne_def split: sum.splits option.splits if_splits)

text \<open>
  C6.  When exactly one machine \<open>k\<close> of the \<open>N\<close> extracted has an invalid config (its
  processing throws \<open>e\<close>), the pass caches \<open>N\<close> results: the result \<open>k\<close> holds the
  machine, the message of \<open>e\<close> as its \<open>configError\<close> and no types; every other
  result holds its machine, no \<open>configError\<close>, and the computed types when the machine
  is typed (none when it is not).
\<close>

theorem one_invalid_machine_is_isolated:
  assumes extracted: "extractMachinesFromFile env (getText doc) = Inr (Some extracted)"
    and machines: "machines = filterOutIgnoredMachines env extracted"
    and k: "k < length machines"
    and bad: "invalidConfig env (uri doc) k (machines ! k) = Some e"
    and good: "\<forall>i < length machines. i \<noteq> k \<longrightarrow> invalidConfig env (uri doc) i (machines ! i) = None"
  shows "\<exists>results.
           documentsCache (snd (handleDocumentChange env doc st)) (uri doc)
             = Some \<lparr>documentText = getText doc, extractionResults = results\<rparr> \<and>
           length results = length machines \<and>
           machineResult (results ! k) = Some (machines ! k) \<and>
           configError (results ! k) = Some (message_or_unknown e) \<and>
           types (results ! k) = None \<and>
           (\<forall>i < length machines. i \<noteq> k \<longrightarrow>
              machineResult (results ! i) = Some (machines ! i) \<and>
              configError (results ! i) = None \<and>
              (isTypedMachineResult env (machines ! i) \<longrightarrow>
                 (\<exists>t. getTypegenData env (basename env (uri doc)) i (machines ! i) = Inr t \<and>
                      types (results ! i) = Some t)) \<and>
              (\<not> isTypedMachineResult env (machines ! i) \<longrightarrow> types (results ! i) = None))"
proof -
  let ?results = "extractAll env (uri doc) machines"
  have cache: "documentsCache (snd (handleDocumentChange env doc st)) (uri doc)
             = Some \<lparr>documentText = getText doc, extractionResults = ?results\<rparr>"
    using handleDocumentChange_cache [OF extracted] machines by simp
  have len: "length ?results = length machines"
    by (rule length_extractAll)
  have at_k: "machineResult (?results ! k) = Some (machines ! k) \<and>
           configError (?results ! k) = Some (message_or_unknown e) \<and>
           types (?results ! k) = None"
    using extractOne_invalid [OF bad] k by (simp add: extractAll_nth)
  have others: "\<forall>i < length machines. i \<noteq> k \<longrightarrow>
              machineResult (?results ! i) = Some (machines ! i) \<and>
              configError (?results ! i) = None \<and>
              (isTypedMachineResult env (machines ! i) \<longrightarrow>
                 (\<exists>t. getTypegenData env (basename env (uri doc)) i (machines ! i) = Inr t \<and>
                      types (?results ! i) = Some t)) \<and>
              (\<not> isTypedMachineResult env (machines ! i) \<longrightarrow> types (?results ! i) = None)"
  proof (intro allI impI)
    fix i assume i: "i < length machines" "i \<noteq> k"
    with good have "invalidConfig env (uri doc) i (machines ! i) = None" by simp
    from extractOne_valid [OF this] i
    show "machineResult (?results ! i) = Some (machines ! i) \<and>
              configError (?results ! i) = None \<and>
              (isTypedMachineResult env (machines ! i) \<longrightarrow>
                 (\<exists>t. getTypegenData env (basename env (uri doc)) i (machines ! i) = Inr t \<and>
                      types (?results ! i) = Some t)) \<and>
              (\<not> isTypedMachineResult env (machines ! i) \<longrightarrow> types (?results ! i) = None)"
      by (simp add: extractAll_nth)
  qed
  from cache len at_k others show ?thesis by blast
qed

theorem one_invalid_machine_is_isolated_witness:
  "\<exists>results.
     documentsCache
       (snd (handleDocumentChange (sample_env (Inr (Some [''typed-sync'', ''broken'', ''plain''])))
               sample_document (sample_server None)))
       ''file:///machine.ts''
       = Some \<lparr>documentText = ''createMachine({})'', extractionResults = results\<rparr> \<and>
     length results = 3 \<and>
     results ! 1 = \<lparr>machineResult = Some ''broken'', types = None,
                    configError = Some ''Invalid config''\<rparr> \<and>
     results ! 0 = \<lparr>machineResult = Some ''typed-sync'',
                    types = Some (sample_typegen ''typed-sync'' ''typed-sync''),
                    configError = None\<rparr> \<and>
     results ! 2 = \<lparr>machineResult = Some ''plain'', types = None, configError = None\<rparr>"
proof -
  let ?env = "sample_env (Inr (Some [''typed-sync'', ''broken'', ''plain'']))"
  have 1: "extractMachinesFromFile ?env (getText sample_document)
             = Inr (Some [''typed-sync'', ''broken'', ''plain''])"
    by (simp add: sample_env_def)
  have 2: "[''typed-sync'', ''broken'', ''plain'']
             = filterOutIgnoredMachines ?env [''typed-sync'', ''broken'', ''plain'']"
    by (simp add: sample_env_def)
  have 3: "1 < length [''typed-sync'', ''broken'', ''plain'']"
    by simp
  have 4: "invalidConfig ?env (uri sample_document) 1 ([''typed-sync'', ''broken'', ''plain''] ! 1)
             = Some (Error ''Invalid config'')"
    by (simp add: sample_env_def invalidConfig_def)
  have 5: "\<forall>i < length [''typed-sync'', ''broken'', ''plain'']. i \<noteq> 1 \<longrightarrow>
             invalidConfig ?env (uri sample_document) i ([''typed-sync'', ''broken'', ''plain''] ! i)
               = None"
    by (simp add: sample_env_def invalidConfig_def All_less_Suc numeral_3_eq_3)
  from one_invalid_machine_is_isolated [OF 1 2 3 4 5, of "sample_server None"]
  obtain results where
    r: "documentsCache (snd (handleDocumentChange ?env sample_document (sample_server None)))
          (uri sample_document)
        = Some \<lparr>documentText = getText sample_document, extractionResults = results\<rparr>"
    by blast
  have "results = [\<lparr>machineResult = Some ''typed-sync'',
                     types = Some (sample_typegen ''typed-sync'' ''typed-sync''),
                     configError = None\<rparr>,
                   \<lparr>machineResult = Some ''broken'', types = None,
                     configError = Some ''Invalid config''\<rparr>,
                   \<lparr>machineResult = Some ''plain'', types = None, configError = None\<rparr>]"
    using r by (simp add: sample_defs)
  with r show ?thesis by (simp add: sample_document_def)
qed

subsection \<open>\<open>getMachineAtIndex\<close>\<close>

lemma getMachineAtIndex_past_end:
  assumes "documentsCache st docUri = Some cachedDocument"
    and "extractionResults cachedDocument \<noteq> []"
    and "length (extractionResults cachedDocument) \<le> i"
  shows "getMachineAtIndex env docUri i st = Inl (cannot_read ''machineResult'')"
  using assms by (simp add: getMachineAtIndex_def)

text \<open>The descriptive error is reached only for a slot that exists and holds no machine
  result.\<close>

lemma getMachineAtIndex_not_found_in_range:
  "getMachineAtIndex env docUri i st =
     Inl (Error (''Machine '' @ string_of_nat i @ '' was not found. This document has only '' @
                 string_of_nat n @ '' machine(s)''))
   \<Longrightarrow> \<exists>cachedDocument. documentsCache st docUri = Some cachedDocument \<and>
         i < length (extractionResults cachedDocument)"
  by (auto simp: getMachineAtIndex_def cannot_read_def
      split: option.splits if_splits)

text \<open>
  C3 fails on the code.  For a cached document with one machine, the request for the
  index 1 does not fail with the error that names the index and the count: the read of
  \<open>machineResult\<close> on the missing slot throws a \<open>TypeError\<close> first.
\<close>

theorem getMachineAtIndex_past_end_throws_TypeError:
  "length (extractionResults
     (the (documentsCache (sample_previous [''plain'']) ''file:///machine.ts''))) = 1 \<and>
   getMachineAtIndex sample_api ''file:///machine.ts'' 1 (sample_previous [''plain''])
     = Inl (TypeError (''Cannot read properties of undefined (reading '' @ sq @
                       ''machineResult'' @ sq @ '')'')) \<and>
   getMachineAtIndex sample_api ''file:///machine.ts'' 1 (sample_previous [''plain''])
     \<noteq> Inl (Error ''Machine 1 was not found. This document has only 1 machine(s)'')"
  by (simp add: sample_defs getMachineAtIndex_def)

subsection \<open>\<open>getTextEditsForImplementation\<close>\<close>






subsection \<open>\<open>applyMachineEdits\<close>\<close>

lemma applyMachineEdits_success:
  assumes "applyMachineEdits env machineEdits st = Inr (textEdits, st')"
  shows "\<exists>dm cachedDocument slot machineResult' modified file machineNodes.
           displayedMachine st = Some dm \<and>
           documentsCache st (displayed_uri dm) = Some cachedDocument \<and>
           machineIndex dm < length (extractionResults cachedDocument) \<and>
           slot = extractionResults cachedDocument ! machineIndex dm \<and>
           machineResult slot = Some machineResult' \<and>
           modify env machineResult' machineEdits = Inr modified \<and>
           getMachineNodesFromFile env
             (splice (documentText cachedDocument) (index (fst (modified_range modified)))
                (index (snd (modified_range modified))) (modified_newText modified))
             = Inr (file, machineNodes) \<and>
           textEdits = [\<lparr>edit_uri = displayed_uri dm, edit_range = modified_range modified,
                         edit_newText = modified_newText modified\<rparr>] \<and>
           st' = st\<lparr>documentsCache := (documentsCache st)(displayed_uri dm \<mapsto>
                   cachedDocument\<lparr>extractionResults :=
                     (extractionResults cachedDocument)
                       [machineIndex dm := slot\<lparr>machineResult :=
                          getMachineExtractResult env file
                            (splice (documentText cachedDocument)
                               (index (fst (modified_range modified)))
                               (index (snd (modified_range modified)))
                               (modified_newText modified))
                            (at_index machineNodes (machineIndex dm))\<rparr>]\<rparr>)\<rparr>"
  using assms
  by (auto simp: applyMachineEdits_def at_index_def Let_def
      split: option.splits sum.splits if_splits prod.splits)

text \<open>
  C10.  After a successful \<open>applyMachineEdits\<close>, the entry of the displayed document
  still holds the text from before the edit; its slot of the displayed machine holds
  the machine result extracted again from the text after the edit, with the \<open>types\<close>
  and the \<open>configError\<close> it had; every other slot, every other document and the rest
  of the module state are as before.  A later \<open>getMachineAtIndex\<close> for that machine
  computes the inline implementations from the new machine result and the old text.
\<close>

theorem applyMachineEdits_patches_one_slot:
  assumes ok: "applyMachineEdits env machineEdits st = Inr (textEdits, st')"
  shows "\<exists>dm cachedDocument results' machineResult' modified file machineNodes newDocumentText.
           displayedMachine st = Some dm \<and>
           documentsCache st (displayed_uri dm) = Some cachedDocument \<and>
           machineIndex dm < length (extractionResults cachedDocument) \<and>
           machineResult (extractionResults cachedDocument ! machineIndex dm)
             = Some machineResult' \<and>
           modify env machineResult' machineEdits = Inr modified \<and>
           newDocumentText =
             take (index (fst (modified_range modified))) (documentText cachedDocument) @
             modified_newText modified @
             drop (index (snd (modified_range modified))) (documentText cachedDocument) \<and>
           getMachineNodesFromFile env newDocumentText = Inr (file, machineNodes) \<and>
           documentsCache st' (displayed_uri dm)
             = Some \<lparr>documentText = documentText cachedDocument, extractionResults = results'\<rparr> \<and>
           length results' = length (extractionResults cachedDocument) \<and>
           results' ! machineIndex dm =
             \<lparr>machineResult =
                getMachineExtractResult env file newDocumentText
                  (at_index machineNodes (machineIndex dm)),
              types = types (extractionResults cachedDocument ! machineIndex dm),
              configError = configError (extractionResults cachedDocument ! machineIndex dm)\<rparr> \<and>
           (\<forall>i. i \<noteq> machineIndex dm \<longrightarrow> results' ! i = extractionResults cachedDocument ! i) \<and>
           (\<forall>u. u \<noteq> displayed_uri dm \<longrightarrow> documentsCache st' u = documentsCache st u) \<and>
           displayedMachine st' = displayedMachine st \<and>
           documentSettings st' = documentSettings st \<and>
           globalSettings st' = globalSettings st \<and>
           hasConfigurationCapability st' = hasConfigurationCapability st \<and>
           (\<forall>api m. getMachineExtractResult env file newDocumentText
                       (at_index machineNodes (machineIndex dm)) = Some m \<longrightarrow>
              getMachineAtIndex api (displayed_uri dm) (machineIndex dm) st' =
                Inr \<lparr>config = toConfig api m hashInline,
                     layoutString = getLayoutComment api m,
                     implementations =
                       getInlineImplementations api m (documentText cachedDocument),
                     namedGuards = getSetOfNames api (getAllCondsNamed api m)\<rparr>)"
proof -
  from applyMachineEdits_success [OF ok]
  obtain dm cachedDocument slot machineResult' modified parsed machineNodes where
    dm: "displayedMachine st = Some dm"
    and cd: "documentsCache st (displayed_uri dm) = Some cachedDocument"
    and i: "machineIndex dm < length (extractionResults cachedDocument)"
    and slot: "slot = extractionResults cachedDocument ! machineIndex dm"
    and mr: "machineResult slot = Some machineResult'"
    and md: "modify env machineResult' machineEdits = Inr modified"
    and nodes: "getMachineNodesFromFile env
             (splice (documentText cachedDocument) (index (fst (modified_range modified)))
                (index (snd (modified_range modified))) (modified_newText modified))
             = Inr (parsed, machineNodes)"
    and st': "st' = st\<lparr>documentsCache := (documentsCache st)(displayed_uri dm \<mapsto>
                   cachedDocument\<lparr>extractionResults :=
                     (extractionResults cachedDocument)
                       [machineIndex dm := slot\<lparr>machineResult :=
                          getMachineExtractResult env parsed
                            (splice (documentText cachedDocument)
                               (index (fst (modified_range modified)))
                               (index (snd (modified_range modified)))
                               (modified_newText modified))
                            (at_index machineNodes (machineIndex dm))\<rparr>]\<rparr>)\<rparr>"
    by blast
  let ?text = "take (index (fst (modified_range modified))) (documentText cachedDocument) @
             modified_newText modified @
             drop (index (snd (modified_range modified))) (documentText cachedDocument)"
  let ?new = "getMachineExtractResult env parsed ?text (at_index machineNodes (machineIndex dm))"
  let ?results = "(extractionResults cachedDocument)
                    [machineIndex dm := slot\<lparr>machineResult := ?new\<rparr>]"
  have spliced: "splice (documentText cachedDocument) (index (fst (modified_range modified)))
                (index (snd (modified_range modified))) (modified_newText modified) = ?text"
    by (simp add: splice_def)
  have cache: "documentsCache st' (displayed_uri dm)
             = Some \<lparr>documentText = documentText cachedDocument, extractionResults = ?results\<rparr>"
    using st' spliced by simp
  have len: "length ?results = length (extractionResults cachedDocument)"
    by simp
  have patched: "?results ! machineIndex dm =
             \<lparr>machineResult = ?new,
              types = types (extractionResults cachedDocument ! machineIndex dm),
              configError = configError (extractionResults cachedDocument ! machineIndex dm)\<rparr>"
    using i slot by simp
  have others: "\<forall>i. i \<noteq> machineIndex dm \<longrightarrow> ?results ! i = extractionResults cachedDocument ! i"
    by simp
  have docs: "\<forall>u. u \<noteq> displayed_uri dm \<longrightarrow> documentsCache st' u = documentsCache st u"
    using st' by simp
  have rest: "displayedMachine st' = displayedMachine st \<and>
           documentSettings st' = documentSettings st \<and>
           globalSettings st' = globalSettings st \<and>
           hasConfigurationCapability st' = hasConfigurationCapability st"
    using st' by simp
  have later: "\<forall>api m. ?new = Some m \<longrightarrow>
              getMachineAtIndex api (displayed_uri dm) (machineIndex dm) st' =
                Inr \<lparr>config = toConfig api m hashInline,
                     layoutString = getLayoutComment api m,
                     implementations =
                       getInlineImplementations api m (documentText cachedDocument),
                     namedGuards = getSetOfNames api (getAllCondsNamed api m)\<rparr>"
    using cache i by (auto simp: getMachineAtIndex_def patched)
  from dm cd i mr [unfolded slot] md nodes [unfolded spliced] cache len patched others docs rest later
  show ?thesis by blast
qed

theorem applyMachineEdits_patches_one_slot_witness:
  "\<exists>textEdits st'.
     applyMachineEdits sample_edit_env sample_edit sample_displayed = Inr (textEdits, st') \<and>
     documentsCache sample_displayed ''file:///machine.ts''
       = Some \<lparr>documentText = ''createMachine({})'',
               extractionResults =
                 [\<lparr>machineResult = Some ''old'', types = None, configError = None\<rparr>,
                  \<lparr>machineResult = Some ''plain'', types = None, configError = None\<rparr>]\<rparr> \<and>
     documentsCache st' ''file:///machine.ts''
       = Some \<lparr>documentText = ''createMachine({})'',
               extractionResults =
                 [\<lparr>machineResult = Some ''createMachine({ id: 1 })'', types = None,
                   configError = None\<rparr>,
                  \<lparr>machineResult = Some ''plain'', types = None, configError = None\<rparr>]\<rparr> \<and>
     getMachineAtIndex sample_api ''file:///machine.ts'' 0 st'
       = Inr \<lparr>config = Some ''createMachine({ id: 1 })'', layoutString = None,
              implementations = ''createMachine({})'', namedGuards = []\<rparr>"
proof -
  obtain textEdits st' where
    ok: "applyMachineEdits sample_edit_env sample_edit sample_displayed = Inr (textEdits, st')"
    by (simp add: sample_defs sample_displayed_def sample_edit_env_def sample_edit_def
        applyMachineEdits_def at_index_def splice_def)
  have before: "documentsCache sample_displayed ''file:///machine.ts''
       = Some \<lparr>documentText = ''createMachine({})'',
               extractionResults =
                 [\<lparr>machineResult = Some ''old'', types = None, configError = None\<rparr>,
                  \<lparr>machineResult = Some ''plain'', types = None, configError = None\<rparr>]\<rparr>"
    by (simp add: sample_defs sample_displayed_def)
  have dm: "displayedMachine sample_displayed
              = Some \<lparr>displayed_uri = ''file:///machine.ts'', machineIndex = 0\<rparr>"
    by (simp add: sample_displayed_def)
  from applyMachineEdits_patches_one_slot [OF ok]
  obtain dm cachedDocument results' machineResult' modified parsed machineNodes newDocumentText
    where dm': "displayedMachine sample_displayed = Some dm"
    and cd: "documentsCache sample_displayed (displayed_uri dm) = Some cachedDocument"
    and md: "machineResult (extractionResults cachedDocument ! machineIndex dm)
               = Some machineResult'"
       "modify sample_edit_env machineResult' sample_edit = Inr modified"
    and spliced': "newDocumentText =
             take (index (fst (modified_range modified))) (documentText cachedDocument) @
             modified_newText modified @
             drop (index (snd (modified_range modified))) (documentText cachedDocument)"
    and nodes: "getMachineNodesFromFile sample_edit_env newDocumentText = Inr (parsed, machineNodes)"
    and cache': "documentsCache st' (displayed_uri dm)
             = Some \<lparr>documentText = documentText cachedDocument, extractionResults = results'\<rparr>"
    and len': "length results' = length (extractionResults cachedDocument)"
    and first': "results' ! machineIndex dm =
             \<lparr>machineResult =
                getMachineExtractResult sample_edit_env parsed newDocumentText
                  (at_index machineNodes (machineIndex dm)),
              types = types (extractionResults cachedDocument ! machineIndex dm),
              configError = configError (extractionResults cachedDocument ! machineIndex dm)\<rparr>"
    and others': "\<forall>i. i \<noteq> machineIndex dm \<longrightarrow> results' ! i = extractionResults cachedDocument ! i"
    and later': "\<forall>(api :: (string, string) machine_api) m.
              getMachineExtractResult sample_edit_env parsed newDocumentText
                       (at_index machineNodes (machineIndex dm)) = Some m \<longrightarrow>
              getMachineAtIndex api (displayed_uri dm) (machineIndex dm) st' =
                Inr \<lparr>config = toConfig api m hashInline,
                     layoutString = getLayoutComment api m,
                     implementations =
                       getInlineImplementations api m (documentText cachedDocument),
                     namedGuards = getSetOfNames api (getAllCondsNamed api m)\<rparr>"
    by blast
  have dm_eq: "dm = \<lparr>displayed_uri = ''file:///machine.ts'', machineIndex = 0\<rparr>"
    using dm dm' by simp
  have cd_eq: "cachedDocument = \<lparr>documentText = ''createMachine({})'',
               extractionResults =
                 [\<lparr>machineResult = Some ''old'', types = None, configError = None\<rparr>,
                  \<lparr>machineResult = Some ''plain'', types = None, configError = None\<rparr>]\<rparr>"
    using cd before dm_eq by simp
  have modified: "modified = sample_edit"
    using md(2) by (simp add: sample_edit_env_def)
  have spliced: "newDocumentText = ''createMachine({ id: 1 })''"
    using spliced' cd_eq modified by (simp add: sample_edit_def)
  have cache: "documentsCache st' ''file:///machine.ts''
             = Some \<lparr>documentText = ''createMachine({})'', extractionResults = results'\<rparr>"
    using cache' dm_eq cd_eq by simp
  have len: "length results' = 2"
    using len' cd_eq by simp
  have first: "results' ! 0 =
             \<lparr>machineResult =
                getMachineExtractResult sample_edit_env parsed newDocumentText
                  (at_index machineNodes 0),
              types = None, configError = None\<rparr>"
    using first' dm_eq cd_eq by simp
  have second: "results' ! 1 = \<lparr>machineResult = Some ''plain'', types = None, configError = None\<rparr>"
    using others' dm_eq cd_eq by simp
  have later: "\<forall>(api :: (string, string) machine_api) m.
              getMachineExtractResult sample_edit_env parsed newDocumentText
                       (at_index machineNodes 0) = Some m \<longrightarrow>
              getMachineAtIndex api ''file:///machine.ts'' 0 st' =
                Inr \<lparr>config = toConfig api m hashInline,
                     layoutString = getLayoutComment api m,
                     implementations = getInlineImplementations api m ''createMachine({})'',
                     namedGuards = getSetOfNames api (getAllCondsNamed api m)\<rparr>"
    using later' dm_eq cd_eq by simp
  have new: "getMachineExtractResult sample_edit_env parsed newDocumentText (at_index machineNodes 0)
          = Some ''createMachine({ id: 1 })''"
    using nodes spliced by (auto simp: sample_edit_env_def at_index_def)
  have "results' = [results' ! 0, results' ! 1]"
    using len by (cases results'; cases "tl results'") auto
  with first second new have results:
    "results' = [\<lparr>machineResult = Some ''createMachine({ id: 1 })'', types = None,
                   configError = None\<rparr>,
                  \<lparr>machineResult = Some ''plain'', types = None, configError = None\<rparr>]"
    by simp
  from later new have "getMachineAtIndex sample_api ''file:///machine.ts'' 0 st'
       = Inr \<lparr>config = Some ''createMachine({ id: 1 })'', layoutString = None,
              implementations = ''createMachine({})'', namedGuards = []\<rparr>"
    by (simp add: sample_api_def hashInline_def)
  with ok before cache results show ?thesis by blast
qed

end
